theory Spec2Isabelle
  imports Main "HOL-Library.Word"
begin

section \<open>The MQTT connection and client objects of \<open>MqttClient.h\<close>\<close>

text \<open>
  The header declares two classes, \<open>MqttConnection\<close> and \<open>MqttClient\<close>. Their data
  members become records. A raw pointer is an address or \<open>nullptr\<close>; a
  \<open>std::function\<close> is either empty or holds one callable target. The callables
  themselves are closures supplied by the user: the three handler types of the stored
  slots are the type parameters \<open>'f\<close> (\<open>OnConnectionFailedHandler\<close>), \<open>'a\<close>
  (\<open>OnConnAckHandler\<close>) and \<open>'d\<close> (\<open>OnDisconnectHandler\<close>). C's \<open>int\<close> is a 32-bit
  word, \<open>uint16_t\<close> a 16-bit word.
\<close>

type_synonym addr = nat

type_synonym 'h std_function = "'h option"

record ('f, 'a, 'd) MqttConnection =
  m_owningClient :: "addr option"
  m_underlyingConnection :: "addr option"
  m_onConnectionFailed :: "'f std_function"
  m_onConnAck :: "'a std_function"
  m_onDisconnect :: "'d std_function"
  m_lastError :: "32 word"
  m_isInit :: bool

text \<open>
  \<open>MqttClient\<close> holds the engine's client structure \<open>aws_mqtt_client\<close> by value. The
  structure is declared by the engine's own header; its content is the type parameter
  \<open>'m\<close>, and \<open>None\<close> stands for a structure that holds no initialised engine context.
  The members \<open>m_lastError\<close> and \<open>m_isInit\<close> have the names of the connection's
  members, so they carry the prefix \<open>client_\<close> here.
\<close>

record 'm MqttClient =
  client_m_client :: "'m option"
  client_m_lastError :: "32 word"
  client_m_isInit :: bool

subsection \<open>The inline handler setters\<close>

text \<open>
  Each setter move-assigns its argument into one data member and touches nothing else.
  What the move leaves in the caller's argument is outside the connection and is not
  part of the returned state.
\<close>

definition SetOnConnectionFailedHandler ::
  "'f std_function \<Rightarrow> ('f, 'a, 'd) MqttConnection \<Rightarrow> ('f, 'a, 'd) MqttConnection" where
  "SetOnConnectionFailedHandler onConnectionFailed c = c\<lparr>m_onConnectionFailed := onConnectionFailed\<rparr>"

definition SetOnConnAckHandler ::
  "'a std_function \<Rightarrow> ('f, 'a, 'd) MqttConnection \<Rightarrow> ('f, 'a, 'd) MqttConnection" where
  "SetOnConnAckHandler onConnAck c = c\<lparr>m_onConnAck := onConnAck\<rparr>"

definition SetOnDisconnectHandler ::
  "'d std_function \<Rightarrow> ('f, 'a, 'd) MqttConnection \<Rightarrow> ('f, 'a, 'd) MqttConnection" where
  "SetOnDisconnectHandler onDisconnect c = c\<lparr>m_onDisconnect := onDisconnect\<rparr>"

subsection \<open>The declarations of the member functions\<close>

text \<open>
  The bodies of all other member functions are in the implementation file; the header
  fixes, for each of them, its access, whether it is deleted, defaulted, defined inline
  or only declared, and whether it carries \<open>noexcept\<close>. These attributes are
  transcribed member by member, in the order of the header.
\<close>

datatype cls = MqttConnectionCls | MqttClientCls

datatype member_fn =
    Conn_Dtor | Conn_CopyCtor | Conn_MoveCtor | Conn_CopyAssign | Conn_MoveAssign
  | Conn_operator_bool | Conn_LastError
  | Conn_SetOnConnectionFailedHandler | Conn_SetOnConnAckHandler | Conn_SetOnDisconnectHandler
  | Conn_SetWill | Conn_SetLogin | Conn_Connect | Conn_Disconnect
  | Conn_Subscribe | Conn_Unsubscribe | Conn_Publish | Conn_Ping
  | Conn_Ctor
  | Conn_s_onConnectionFailed | Conn_s_onConnAck | Conn_s_onDisconnect
  | Conn_s_onPublish | Conn_s_onOpComplete
  | Client_Ctor | Client_Dtor | Client_CopyCtor | Client_MoveCtor | Client_CopyAssign
  | Client_MoveAssign | Client_operator_bool | Client_LastError | Client_NewConnection

datatype access = Public | Private

datatype body = Deleted | Defaulted | InlineBody | DeclaredOnly

definition all_members :: "member_fn list" where
  "all_members =
    [Conn_Dtor, Conn_CopyCtor, Conn_MoveCtor, Conn_CopyAssign, Conn_MoveAssign,
     Conn_operator_bool, Conn_LastError,
     Conn_SetOnConnectionFailedHandler, Conn_SetOnConnAckHandler, Conn_SetOnDisconnectHandler,
     Conn_SetWill, Conn_SetLogin, Conn_Connect, Conn_Disconnect,
     Conn_Subscribe, Conn_Unsubscribe, Conn_Publish, Conn_Ping,
     Conn_Ctor,
     Conn_s_onConnectionFailed, Conn_s_onConnAck, Conn_s_onDisconnect,
     Conn_s_onPublish, Conn_s_onOpComplete,
     Client_Ctor, Client_Dtor, Client_CopyCtor, Client_MoveCtor, Client_CopyAssign,
     Client_MoveAssign, Client_operator_bool, Client_LastError, Client_NewConnection]"

definition class_of :: "member_fn \<Rightarrow> cls" where
  "class_of m =
    (if m \<in> set [Client_Ctor, Client_Dtor, Client_CopyCtor, Client_MoveCtor, Client_CopyAssign,
                  Client_MoveAssign, Client_operator_bool, Client_LastError, Client_NewConnection]
     then MqttClientCls else MqttConnectionCls)"

text \<open>Everything after \<open>private:\<close> in \<open>MqttConnection\<close>; \<open>MqttClient\<close> has no private
  member function.\<close>

definition access_of :: "member_fn \<Rightarrow> access" where
  "access_of m =
    (if m \<in> set [Conn_Ctor, Conn_s_onConnectionFailed, Conn_s_onConnAck, Conn_s_onDisconnect,
                  Conn_s_onPublish, Conn_s_onOpComplete]
     then Private else Public)"

definition body_of :: "member_fn \<Rightarrow> body" where
  "body_of m =
    (if m \<in> set [Conn_CopyCtor, Conn_CopyAssign, Client_CopyCtor, Client_CopyAssign] then Deleted
     else if m \<in> set [Conn_Dtor, Conn_MoveCtor, Conn_MoveAssign] then Defaulted
     else if m \<in> set [Conn_SetOnConnectionFailedHandler, Conn_SetOnConnAckHandler,
                       Conn_SetOnDisconnectHandler] then InlineBody
     else DeclaredOnly)"

text \<open>The declarations that carry the \<open>noexcept\<close> keyword.\<close>

definition has_noexcept :: "member_fn \<Rightarrow> bool" where
  "has_noexcept m =
    (m \<in> set [Conn_operator_bool, Conn_LastError,
               Conn_SetOnConnectionFailedHandler, Conn_SetOnConnAckHandler,
               Conn_SetOnDisconnectHandler,
               Conn_SetWill, Conn_SetLogin, Conn_Connect, Conn_Disconnect,
               Conn_Subscribe, Conn_Unsubscribe, Conn_Publish,
               Conn_Ctor,
               Client_Ctor, Client_MoveCtor, Client_MoveAssign,
               Client_operator_bool, Client_LastError, Client_NewConnection])"

text \<open>
  The exception specification of a member. A function declared \<open>noexcept\<close> cannot let
  an exception reach its caller. A destructor, and a member defaulted on its first
  declaration, has the specification the compiler derives from the members of the class.
  A deleted function cannot be called. Any other function declared without \<open>noexcept\<close>
  is potentially throwing.
\<close>

datatype exception_spec = NonThrowing | Derived | PotentiallyThrowing | NotCallable

definition exception_spec_of :: "member_fn \<Rightarrow> exception_spec" where
  "exception_spec_of m =
    (if body_of m = Deleted then NotCallable
     else if has_noexcept m then NonThrowing
     else if body_of m = Defaulted \<or> m = Conn_Dtor \<or> m = Client_Dtor then Derived
     else PotentiallyThrowing)"

text \<open>\<open>friend class MqttClient\<close> in \<open>MqttConnection\<close>, \<open>friend class MqttConnection\<close> in
  \<open>MqttClient\<close>.\<close>

definition friends_of :: "cls \<Rightarrow> cls list" where
  "friends_of k = (case k of MqttConnectionCls \<Rightarrow> [MqttClientCls]
                           | MqttClientCls \<Rightarrow> [MqttConnectionCls])"

text \<open>Code is either a member of one of the two classes or any other code.\<close>

datatype caller = MemberOf cls | OtherCode

definition can_call :: "caller \<Rightarrow> member_fn \<Rightarrow> bool" where
  "can_call who m =
    (body_of m \<noteq> Deleted \<and>
     (access_of m = Public \<or>
      (case who of OtherCode \<Rightarrow> False
                 | MemberOf k \<Rightarrow> k = class_of m \<or> k \<in> set (friends_of (class_of m)))))"

definition is_constructor :: "member_fn \<Rightarrow> bool" where
  "is_constructor m =
    (m \<in> set [Conn_CopyCtor, Conn_MoveCtor, Conn_Ctor, Client_Ctor, Client_CopyCtor, Client_MoveCtor])"

text \<open>The operations a user of the two classes can invoke.\<close>

definition public_operations :: "member_fn list" where
  "public_operations = filter (can_call OtherCode) all_members"

subsection \<open>The defaulted move operations of \<open>MqttConnection\<close>\<close>

text \<open>
  \<open>MqttConnection(MqttConnection&&) = default\<close> move-constructs every data member from
  the member of the source, and \<open>operator=(MqttConnection&&) = default\<close> move-assigns
  every data member. Moving a raw pointer, an \<open>int\<close> or a \<open>bool\<close> copies it and leaves
  the source member as it was. Moving a \<open>std::function\<close> hands its target to the
  destination and leaves the source \<open>std::function\<close> in a valid state that the standard
  does not fix: that state is the parameter \<open>left\<close>. Both functions return the
  destination object first and the moved-from object second.
\<close>

record ('f, 'a, 'd) moved_from_slots =
  left_onConnectionFailed :: "'f std_function"
  left_onConnAck :: "'a std_function"
  left_onDisconnect :: "'d std_function"

definition after_move ::
  "('f, 'a, 'd) moved_from_slots \<Rightarrow> ('f, 'a, 'd) MqttConnection \<Rightarrow> ('f, 'a, 'd) MqttConnection" where
  "after_move left src =
     src\<lparr>m_onConnectionFailed := left_onConnectionFailed left,
         m_onConnAck := left_onConnAck left,
         m_onDisconnect := left_onDisconnect left\<rparr>"

definition MqttConnection_move_ctor ::
  "('f, 'a, 'd) moved_from_slots \<Rightarrow> ('f, 'a, 'd) MqttConnection
     \<Rightarrow> ('f, 'a, 'd) MqttConnection \<times> ('f, 'a, 'd) MqttConnection" where
  "MqttConnection_move_ctor left src =
     (\<lparr>m_owningClient = m_owningClient src,
       m_underlyingConnection = m_underlyingConnection src,
       m_onConnectionFailed = m_onConnectionFailed src,
       m_onConnAck = m_onConnAck src,
       m_onDisconnect = m_onDisconnect src,
       m_lastError = m_lastError src,
       m_isInit = m_isInit src\<rparr>,
      after_move left src)"

definition MqttConnection_move_assign ::
  "('f, 'a, 'd) moved_from_slots \<Rightarrow> ('f, 'a, 'd) MqttConnection \<Rightarrow> ('f, 'a, 'd) MqttConnection
     \<Rightarrow> ('f, 'a, 'd) MqttConnection \<times> ('f, 'a, 'd) MqttConnection" where
  "MqttConnection_move_assign left dst src =
     (dst\<lparr>m_owningClient := m_owningClient src,
          m_underlyingConnection := m_underlyingConnection src,
          m_onConnectionFailed := m_onConnectionFailed src,
          m_onConnAck := m_onConnAck src,
          m_onDisconnect := m_onDisconnect src,
          m_lastError := m_lastError src,
          m_isInit := m_isInit src\<rparr>,
      after_move left src)"

text \<open>The connection objects among \<open>cs\<close> whose session pointer is the handle \<open>h\<close>.\<close>

definition holders :: "addr \<Rightarrow> ('f, 'a, 'd) MqttConnection list \<Rightarrow> ('f, 'a, 'd) MqttConnection list" where
  "holders h cs = filter (\<lambda>c. m_underlyingConnection c = Some h) cs"

subsection \<open>The data members as callback slots\<close>

text \<open>
  The header declares five handler types, one per kind of event. A connection object
  has a \<open>std::function\<close> data member for three of them; the handlers for received
  publishes and for completed operations are arguments of \<open>Subscribe\<close>, \<open>Unsubscribe\<close>
  and \<open>Publish\<close>. \<open>callback_slots\<close> lists the \<open>std::function\<close> data members in
  declaration order, each with its kind of event and whether it holds a target.
\<close>

datatype event_kind = ConnectionFailed | ConnAck | Disconnect | PublishReceived | OperationComplete

definition callback_slots :: "('f, 'a, 'd) MqttConnection \<Rightarrow> (event_kind \<times> bool) list" where
  "callback_slots c =
     [(ConnectionFailed, m_onConnectionFailed c \<noteq> None),
      (ConnAck, m_onConnAck c \<noteq> None),
      (Disconnect, m_onDisconnect c \<noteq> None)]"

subsection \<open>The defaulted destructor of \<open>MqttConnection\<close>\<close>

text \<open>
  \<open>~MqttConnection() = default\<close> has an empty body and then destroys the data members
  in reverse order of declaration. Destroying a \<open>bool\<close>, an \<open>int\<close> or a raw pointer does
  nothing, in particular nothing to what the pointer points to; destroying a
  \<open>std::function\<close> destroys the target it holds. The world outside the object is the
  set of native session handles that have been released, the client objects by
  address, and the record of the callables destroyed so far.
\<close>

datatype ('f, 'a, 'd) callable = FailedTarget 'f | ConnAckTarget 'a | DisconnectTarget 'd

record ('f, 'a, 'd, 'm) world =
  released_sessions :: "addr set"
  client_objects :: "addr \<rightharpoonup> 'm MqttClient"
  destroyed_callables :: "('f, 'a, 'd) callable list"

definition targets_in_destruction_order ::
  "('f, 'a, 'd) MqttConnection \<Rightarrow> ('f, 'a, 'd) callable list" where
  "targets_in_destruction_order c =
     (case m_onDisconnect c of None \<Rightarrow> [] | Some d \<Rightarrow> [DisconnectTarget d]) @
     (case m_onConnAck c of None \<Rightarrow> [] | Some a \<Rightarrow> [ConnAckTarget a]) @
     (case m_onConnectionFailed c of None \<Rightarrow> [] | Some f \<Rightarrow> [FailedTarget f])"

definition MqttConnection_dtor ::
  "('f, 'a, 'd) MqttConnection \<Rightarrow> ('f, 'a, 'd, 'm) world \<Rightarrow> ('f, 'a, 'd, 'm) world" where
  "MqttConnection_dtor c w =
     w\<lparr>destroyed_callables := destroyed_callables w @ targets_in_destruction_order c\<rparr>"

subsection \<open>The validity check of a connection\<close>

text \<open>
  \<open>operator bool\<close> of \<open>MqttConnection\<close> is declared \<open>const noexcept\<close> and defined in the
  implementation file. Its body is the parameter \<open>check\<close>, a function of the
  data members that are not callbacks: the two pointers, the error code and the
  initialisation flag.
\<close>

type_synonym check_body = "addr option \<Rightarrow> addr option \<Rightarrow> 32 word \<Rightarrow> bool \<Rightarrow> bool"

definition MqttConnection_operator_bool ::
  "check_body \<Rightarrow> ('f, 'a, 'd) MqttConnection \<Rightarrow> bool" where
  "MqttConnection_operator_bool check c =
     check (m_owningClient c) (m_underlyingConnection c) (m_lastError c) (m_isInit c)"

text \<open>The check that returns the initialisation flag.\<close>

definition returns_isInit :: check_body where
  "returns_isInit owningClient underlyingConnection lastError isInit = isInit"

text \<open>
  The connection objects that user code can derive from the objects in \<open>made\<close> with the
  operations whose bodies the header gives: the defaulted move constructor and move
  assignment (both their destination and the object they leave behind) and the three
  inline setters.
\<close>

inductive derived ::
  "('f, 'a, 'd) MqttConnection set \<Rightarrow> ('f, 'a, 'd) MqttConnection \<Rightarrow> bool"
  for made :: "('f, 'a, 'd) MqttConnection set" where
    made: "c \<in> made \<Longrightarrow> derived made c"
  | move_ctor_dst: "derived made c \<Longrightarrow> derived made (fst (MqttConnection_move_ctor left c))"
  | move_ctor_src: "derived made c \<Longrightarrow> derived made (snd (MqttConnection_move_ctor left c))"
  | move_assign_dst:
      "derived made d \<Longrightarrow> derived made c \<Longrightarrow> derived made (fst (MqttConnection_move_assign left d c))"
  | move_assign_src:
      "derived made d \<Longrightarrow> derived made c \<Longrightarrow> derived made (snd (MqttConnection_move_assign left d c))"
  | set_failed: "derived made c \<Longrightarrow> derived made (SetOnConnectionFailedHandler f c)"
  | set_connack: "derived made c \<Longrightarrow> derived made (SetOnConnAckHandler a c)"
  | set_disconnect: "derived made c \<Longrightarrow> derived made (SetOnDisconnectHandler d c)"

section \<open>Properties\<close>

lemmas decl_defs = public_operations_def all_members_def can_call_def body_of_def access_of_def
  exception_spec_of_def has_noexcept_def class_of_def friends_of_def is_constructor_def

lemmas move_defs = MqttConnection_move_ctor_def MqttConnection_move_assign_def after_move_def

lemma derived_keeps_owner:
  "derived made c \<Longrightarrow> \<exists>b\<in>made. m_owningClient c = m_owningClient b"
  by (induction rule: derived.induct)
     (auto simp: move_defs SetOnConnectionFailedHandler_def SetOnConnAckHandler_def
        SetOnDisconnectHandler_def)

subsection \<open>Exception specifications\<close>


subsection \<open>Moving a connection\<close>

text \<open>
  C3, as the claim states it, fails for \<open>MqttConnection\<close>: the defaulted move
  constructor copies the initialisation flag and leaves it set in the source, so a
  validity check that returns the flag still returns true on the moved-from object.
\<close>

theorem moved_from_connection_valid_counterexample:
  "MqttConnection_operator_bool returns_isInit
     (snd (MqttConnection_move_ctor
        \<lparr>left_onConnectionFailed = None, left_onConnAck = None, left_onDisconnect = None\<rparr>
        \<lparr>m_owningClient = Some 1, m_underlyingConnection = Some 2,
           m_onConnectionFailed = Some (10::nat), m_onConnAck = Some (11::nat),
           m_onDisconnect = Some (12::nat), m_lastError = 0, m_isInit = True\<rparr>))"
  by (simp add: MqttConnection_operator_bool_def returns_isInit_def move_defs)

text \<open>
  C3, amended. After a move construction or a move assignment from an
  \<open>MqttConnection\<close>, the destination holds the handler of each of the three slots of
  the source, and its validity check returns what the source's returned. The moved-from
  object keeps its two pointers, its error code and its initialisation flag, so its
  validity check also returns what it returned before the move, whatever function of
  those members the check is.
\<close>

theorem move_transfers_handlers:
  "m_onConnectionFailed (fst (MqttConnection_move_ctor left src)) = m_onConnectionFailed src
   \<and> m_onConnAck (fst (MqttConnection_move_ctor left src)) = m_onConnAck src
   \<and> m_onDisconnect (fst (MqttConnection_move_ctor left src)) = m_onDisconnect src
   \<and> m_onConnectionFailed (fst (MqttConnection_move_assign left dst src)) = m_onConnectionFailed src
   \<and> m_onConnAck (fst (MqttConnection_move_assign left dst src)) = m_onConnAck src
   \<and> m_onDisconnect (fst (MqttConnection_move_assign left dst src)) = m_onDisconnect src
   \<and> MqttConnection_operator_bool check (fst (MqttConnection_move_ctor left src))
       = MqttConnection_operator_bool check src
   \<and> MqttConnection_operator_bool check (fst (MqttConnection_move_assign left dst src))
       = MqttConnection_operator_bool check src
   \<and> MqttConnection_operator_bool check (snd (MqttConnection_move_ctor left src))
       = MqttConnection_operator_bool check src
   \<and> MqttConnection_operator_bool check (snd (MqttConnection_move_assign left dst src))
       = MqttConnection_operator_bool check src"
  by (simp add: MqttConnection_operator_bool_def move_defs)

subsection \<open>Move-only types\<close>

text \<open>
  C4, as the claim states it, fails for the session handle: after a move construction
  both the new object and the moved-from object hold the session handle 2, so the
  handle has two holders.
\<close>

theorem two_holders_counterexample:
  "\<not> length (holders 2
       [fst (MqttConnection_move_ctor
          \<lparr>left_onConnectionFailed = None, left_onConnAck = None, left_onDisconnect = None\<rparr>
          \<lparr>m_owningClient = Some 1, m_underlyingConnection = Some 2,
           m_onConnectionFailed = Some (10::nat), m_onConnAck = Some (11::nat),
           m_onDisconnect = Some (12::nat), m_lastError = 0, m_isInit = True\<rparr>),
        snd (MqttConnection_move_ctor
          \<lparr>left_onConnectionFailed = None, left_onConnAck = None, left_onDisconnect = None\<rparr>
          \<lparr>m_owningClient = Some 1, m_underlyingConnection = Some 2,
           m_onConnectionFailed = Some (10::nat), m_onConnAck = Some (11::nat),
           m_onDisconnect = Some (12::nat), m_lastError = 0, m_isInit = True\<rparr>)]) \<le> 1"
  by (simp add: holders_def move_defs)

text \<open>
  C4, amended. \<open>MqttConnection\<close> and \<open>MqttClient\<close> are move-only types: for both, the
  copy constructor and the copy assignment are deleted and no code can call them,
  while the move constructor and the move assignment can be called by any code. The
  move operations of \<open>MqttConnection\<close> are the defaulted ones: after a move the
  destination holds the session pointer of the source and the moved-from object still
  holds the same pointer.
\<close>

theorem move_only_types:
  "body_of Conn_CopyCtor = Deleted \<and> body_of Conn_CopyAssign = Deleted
   \<and> body_of Client_CopyCtor = Deleted \<and> body_of Client_CopyAssign = Deleted
   \<and> \<not> can_call who Conn_CopyCtor \<and> \<not> can_call who Conn_CopyAssign
   \<and> \<not> can_call who Client_CopyCtor \<and> \<not> can_call who Client_CopyAssign
   \<and> can_call who Conn_MoveCtor \<and> can_call who Conn_MoveAssign
   \<and> can_call who Client_MoveCtor \<and> can_call who Client_MoveAssign
   \<and> body_of Conn_MoveCtor = Defaulted \<and> body_of Conn_MoveAssign = Defaulted
   \<and> m_underlyingConnection (fst (MqttConnection_move_ctor left src)) = m_underlyingConnection src
   \<and> m_underlyingConnection (snd (MqttConnection_move_ctor left src)) = m_underlyingConnection src
   \<and> m_underlyingConnection (fst (MqttConnection_move_assign left dst src)) = m_underlyingConnection src
   \<and> m_underlyingConnection (snd (MqttConnection_move_assign left dst src)) = m_underlyingConnection src"
  by (simp add: decl_defs move_defs)

subsection \<open>Handler slots\<close>

text \<open>
  C5. For each of the three stored handler slots (connection-failed, connack,
  disconnect): setting the handler to \<open>h1\<close> and then to \<open>h2\<close> leaves the connection in
  the same state as setting it to \<open>h2\<close> alone, and afterwards the slot holds \<open>h2\<close>, the
  single handler of that event kind.
\<close>

theorem set_handler_overwrites:
  "SetOnConnectionFailedHandler f2 (SetOnConnectionFailedHandler f1 c)
     = SetOnConnectionFailedHandler f2 c
   \<and> SetOnConnAckHandler a2 (SetOnConnAckHandler a1 c) = SetOnConnAckHandler a2 c
   \<and> SetOnDisconnectHandler d2 (SetOnDisconnectHandler d1 c) = SetOnDisconnectHandler d2 c
   \<and> m_onConnectionFailed (SetOnConnectionFailedHandler f2 (SetOnConnectionFailedHandler f1 c)) = f2
   \<and> m_onConnAck (SetOnConnAckHandler a2 (SetOnConnAckHandler a1 c)) = a2
   \<and> m_onDisconnect (SetOnDisconnectHandler d2 (SetOnDisconnectHandler d1 c)) = d2"
  by (simp add: SetOnConnectionFailedHandler_def SetOnConnAckHandler_def
      SetOnDisconnectHandler_def)

text \<open>
  C6, as the claim states it, fails: a connection object does not have four callback
  slots, and no slot of it is for received publishes.
\<close>

theorem four_slots_counterexample:
  "\<not> (length (callback_slots
          \<lparr>m_owningClient = Some 1, m_underlyingConnection = Some 2,
           m_onConnectionFailed = Some (10::nat), m_onConnAck = Some (11::nat),
           m_onDisconnect = Some (12::nat), m_lastError = 0, m_isInit = True\<rparr>) = 4)
   \<and> PublishReceived \<notin> fst ` set (callback_slots
          \<lparr>m_owningClient = Some 1, m_underlyingConnection = Some 2,
           m_onConnectionFailed = Some (10::nat), m_onConnAck = Some (11::nat),
           m_onDisconnect = Some (12::nat), m_lastError = 0, m_isInit = True\<rparr>)
   \<and> OperationComplete \<notin> fst ` set (callback_slots
          \<lparr>m_owningClient = Some 1, m_underlyingConnection = Some 2,
           m_onConnectionFailed = Some (10::nat), m_onConnAck = Some (11::nat),
           m_onDisconnect = Some (12::nat), m_lastError = 0, m_isInit = True\<rparr>)"
  by (simp add: callback_slots_def)

text \<open>
  C6, amended. Every connection object consists of one back-reference to its client,
  one native session handle, three optional callback slots, one error code and one
  initialisation flag, and of nothing else. The three slots are for the event kinds
  connection-failed, connack and disconnect, and each is empty or holds one handler.
  The handlers for received publishes and for completed operations have no slot in the
  object.
\<close>

theorem connection_members:
  fixes c :: "('f, 'a, 'd) MqttConnection"
  shows "c = \<lparr>m_owningClient = m_owningClient c,
         m_underlyingConnection = m_underlyingConnection c,
         m_onConnectionFailed = m_onConnectionFailed c,
         m_onConnAck = m_onConnAck c,
         m_onDisconnect = m_onDisconnect c,
         m_lastError = m_lastError c,
         m_isInit = m_isInit c\<rparr>
   \<and> map fst (callback_slots c) = [ConnectionFailed, ConnAck, Disconnect]
   \<and> map snd (callback_slots c)
       = [m_onConnectionFailed c \<noteq> None, m_onConnAck c \<noteq> None, m_onDisconnect c \<noteq> None]"
  by (simp add: callback_slots_def)

subsection \<open>Where connections come from\<close>

text \<open>
  C8, as the claim states it, fails: the private constructor is not the only
  constructor of \<open>MqttConnection\<close>. The move constructor is public, and any code can
  construct a connection object with it from an existing one.
\<close>

theorem public_move_ctor_counterexample:
  "is_constructor Conn_MoveCtor \<and> class_of Conn_MoveCtor = MqttConnectionCls
   \<and> can_call OtherCode Conn_MoveCtor \<and> access_of Conn_MoveCtor = Public"
  by (simp add: decl_defs)

text \<open>
  C8, amended. The constructor that builds a connection from a client, a host, a port
  and the options is private: only \<open>MqttConnection\<close> itself and its friend \<open>MqttClient\<close>
  can call it. The only constructor of \<open>MqttConnection\<close> that other code can call is
  the move constructor, which needs an existing connection. Every connection object
  derived by moves and handler setters from the objects that the private constructor
  made carries the back-reference to a client that one of those objects carries.
\<close>

theorem connections_come_from_private_ctor:
  assumes "derived made c"
  shows "can_call who Conn_Ctor = (who = MemberOf MqttConnectionCls \<or> who = MemberOf MqttClientCls)
    \<and> filter (\<lambda>m. is_constructor m \<and> class_of m = MqttConnectionCls \<and> can_call OtherCode m)
         all_members = [Conn_MoveCtor]
    \<and> (\<exists>b\<in>made. m_owningClient c = m_owningClient b)"
proof -
  have "can_call who Conn_Ctor = (who = MemberOf MqttConnectionCls \<or> who = MemberOf MqttClientCls)"
    by (cases who) (auto simp: decl_defs split: cls.splits)
  moreover
  have "filter (\<lambda>m. is_constructor m \<and> class_of m = MqttConnectionCls \<and> can_call OtherCode m)
         all_members = [Conn_MoveCtor]"
    by (simp add: decl_defs)
  moreover
  have "\<exists>b\<in>made. m_owningClient c = m_owningClient b"
    using assms by (rule derived_keeps_owner)
  ultimately show ?thesis by blast
qed

text \<open>
  A connection made with the client at address 1, given a connack handler and then
  moved: the new object is derived from the made one and refers to the client at 1.
\<close>

theorem connections_come_from_private_ctor_witness:
  "derived
     {\<lparr>m_owningClient = Some 1, m_underlyingConnection = Some 2,
           m_onConnectionFailed = (None :: nat option), m_onConnAck = (None :: nat option),
           m_onDisconnect = (None :: nat option), m_lastError = 0, m_isInit = True\<rparr>}
     (fst (MqttConnection_move_ctor
        \<lparr>left_onConnectionFailed = None, left_onConnAck = None, left_onDisconnect = None\<rparr>
        (SetOnConnAckHandler (Some 11)
          \<lparr>m_owningClient = Some 1, m_underlyingConnection = Some 2,
           m_onConnectionFailed = (None :: nat option), m_onConnAck = (None :: nat option),
           m_onDisconnect = (None :: nat option), m_lastError = 0, m_isInit = True\<rparr>)))
   \<and> m_owningClient
       (fst (MqttConnection_move_ctor
        \<lparr>left_onConnectionFailed = None, left_onConnAck = None, left_onDisconnect = None\<rparr>
        (SetOnConnAckHandler (Some 11)
          \<lparr>m_owningClient = Some 1, m_underlyingConnection = Some 2,
           m_onConnectionFailed = (None :: nat option), m_onConnAck = (None :: nat option),
           m_onDisconnect = (None :: nat option), m_lastError = 0, m_isInit = True\<rparr>))) = Some 1"
proof -
  let ?c0 = "\<lparr>m_owningClient = Some 1, m_underlyingConnection = Some 2,
           m_onConnectionFailed = (None :: nat option), m_onConnAck = (None :: nat option),
           m_onDisconnect = (None :: nat option), m_lastError = 0, m_isInit = True\<rparr>"
  let ?left = "\<lparr>left_onConnectionFailed = (None :: nat option),
       left_onConnAck = (None :: nat option), left_onDisconnect = (None :: nat option)\<rparr>"
  let ?c1 = "fst (MqttConnection_move_ctor ?left (SetOnConnAckHandler (Some 11) ?c0))"
  have d: "derived {?c0} ?c1"
    by (intro derived.move_ctor_dst derived.set_connack derived.made) simp
  from connections_come_from_private_ctor [OF d, of OtherCode]
  have "\<exists>b\<in>{?c0}. m_owningClient ?c1 = m_owningClient b" by blast
  then have "m_owningClient ?c1 = Some 1" by simp
  with d show ?thesis by blast
qed

subsection \<open>Destroying a connection\<close>

text \<open>
  C10. Destroying an \<open>MqttConnection\<close> releases no native session handle and changes
  no client object: the destructor is defaulted, so all it does is destroy the data
  members, of which the session handle is a raw pointer and only the handler slots hold
  anything to destroy. \<open>MqttClient\<close>, by contrast, declares a destructor of its own.
\<close>

theorem dtor_releases_nothing:
  "released_sessions (MqttConnection_dtor c w) = released_sessions w
   \<and> client_objects (MqttConnection_dtor c w) = client_objects w
   \<and> destroyed_callables (MqttConnection_dtor c w)
       = destroyed_callables w @ targets_in_destruction_order c
   \<and> body_of Conn_Dtor = Defaulted
   \<and> body_of Client_Dtor = DeclaredOnly"
  by (simp add: MqttConnection_dtor_def body_of_def)

end
